theory Spec2Isabelle
  imports Main
begin

section \<open>Devices and form values\<close>

text \<open>
  The join-server form of the console works on end devices as the registry's JSON
  delivers them, and on the values of the form, which have the same shape. The named
  fields have the types the registry gives them (strings, booleans, objects), so the
  type coercions of the schema library are the identity on them; a field of another
  type is outside the values described here. Properties the schema does not name are
  kept apart (\<open>key_rest\<close>, \<open>root_keys_rest\<close>, \<open>rest\<close>): the schema passes them
  through.

  An object can lack a property, or have it and hold \<open>undefined\<close> under it; both read
  as \<open>undefined\<close>, but only the second is an own property of the object. Inside
  \<open>root_keys\<close> and inside a key envelope the difference is kept (\<open>slot\<close>), since the
  schema library can produce either. At the top level an \<open>option\<close> is enough, \<open>None\<close>
  being a property the object lacks: JSON has no \<open>undefined\<close>, and a cast leaves a
  top-level property out rather than setting it to \<open>undefined\<close>.
\<close>

datatype 'a slot = Missing | Undefined | Value 'a

text \<open>Reading a property: \<open>object.name\<close>.\<close>

fun read :: "'a slot \<Rightarrow> 'a option" where
  "read Missing = None"
| "read Undefined = None"
| "read (Value x) = Some x"

type_synonym props = "(string \<times> string) list"

record key_envelope =
  key :: "string slot"
  key_rest :: props

record root_keys_object =
  nwk_key :: "key_envelope slot"
  app_key :: "key_envelope slot"
  root_keys_rest :: props

record 'o device =
  join_server_address :: "string option"
  net_id :: "string option"
  root_keys :: "root_keys_object option"
  resets_join_nonces :: "bool option"
  external_js :: "bool option"
  lorawan_version :: "string option"
  rest :: 'o

text \<open>\<open>external_js\<close> is the property \<open>_external_js\<close> of the source.\<close>


section \<open>The hidden-key predicates\<close>

text \<open>
  \<open>isNwkKeyHidden\<close> and \<open>isAppKeyHidden\<close> take the device as it comes and look at it
  with \<open>Boolean\<close>, \<open>typeof\<close> and \<open>Object.keys\<close>, so they are modelled on JSON values
  at large (with \<open>undefined\<close>, which an object built in JavaScript can hold). The
  numbers are integers here; only whether a number is zero plays a role.
\<close>

datatype jsval =
    JUndefined
  | JNull
  | JBoolean bool
  | JNumber int
  | JString string
  | JArray "jsval list"
  | JObject "(string \<times> jsval) list"

datatype js_error = TypeError

text \<open>
  \<open>value.name\<close>, for a name that is neither an index nor a built-in property (as
  \<open>root_keys\<close>, \<open>nwk_key\<close> and \<open>app_key\<close>): reading from \<open>undefined\<close> or \<open>null\<close> throws;
  a primitive or an array has no such property. Destructuring \<open>({ root_keys })\<close> reads
  the property in the same way.
\<close>

fun property :: "jsval \<Rightarrow> string \<Rightarrow> js_error + jsval" where
  "property JUndefined name = Inl TypeError"
| "property JNull name = Inl TypeError"
| "property (JObject ps) name = Inr (case map_of ps name of None \<Rightarrow> JUndefined | Some v \<Rightarrow> v)"
| "property v name = Inr JUndefined"

text \<open>\<open>Boolean(value)\<close>\<close>

fun Boolean :: "jsval \<Rightarrow> bool" where
  "Boolean JUndefined = False"
| "Boolean JNull = False"
| "Boolean (JBoolean b) = b"
| "Boolean (JNumber n) = (n \<noteq> 0)"
| "Boolean (JString s) = (s \<noteq> [])"
| "Boolean (JArray xs) = True"
| "Boolean (JObject ps) = True"

text \<open>\<open>typeof value === 'object'\<close>, which holds of \<open>null\<close> too.\<close>

fun typeof_is_object :: "jsval \<Rightarrow> bool" where
  "typeof_is_object JNull = True"
| "typeof_is_object (JArray xs) = True"
| "typeof_is_object (JObject ps) = True"
| "typeof_is_object v = False"

text \<open>
  \<open>Object.keys(value).length\<close>: the number of own enumerable properties, those
  holding \<open>undefined\<close> included; \<open>Object.keys\<close> throws on \<open>undefined\<close> and on \<open>null\<close>.
\<close>

fun Object_keys_length :: "jsval \<Rightarrow> js_error + nat" where
  "Object_keys_length JUndefined = Inl TypeError"
| "Object_keys_length JNull = Inl TypeError"
| "Object_keys_length (JObject ps) = Inr (length (remdups (map fst ps)))"
| "Object_keys_length (JArray xs) = Inr (length xs)"
| "Object_keys_length (JString s) = Inr (length s)"
| "Object_keys_length v = Inr 0"

text \<open>
  \<^verbatim>\<open>Boolean(root_keys) && typeof root_keys.nwk_key === 'object' &&
  Object.keys(root_keys.nwk_key).length === 0\<close>, for either key.
\<close>

definition isKeyHidden :: "string \<Rightarrow> jsval \<Rightarrow> js_error + bool" where
  "isKeyHidden name device =
     (case property device ''root_keys'' of
        Inl err \<Rightarrow> Inl err
      | Inr rk \<Rightarrow>
          if \<not> Boolean rk then Inr False
          else (case property rk name of
                  Inl err \<Rightarrow> Inl err
                | Inr k \<Rightarrow>
                    if \<not> typeof_is_object k then Inr False
                    else (case Object_keys_length k of
                            Inl err \<Rightarrow> Inl err
                          | Inr n \<Rightarrow> Inr (n = 0))))"

definition isNwkKeyHidden :: "jsval \<Rightarrow> js_error + bool" where
  "isNwkKeyHidden device = isKeyHidden ''nwk_key'' device"

definition isAppKeyHidden :: "jsval \<Rightarrow> js_error + bool" where
  "isAppKeyHidden device = isKeyHidden ''app_key'' device"


section \<open>The schema library\<close>

text \<open>
  The validation schema is written with the combinators of the Yup library, which is
  not part of the console's sources. This section describes the library as far as the
  schema uses it, on values of the types above. A schema
  for a leaf value carries what the combinators of the source set: the strip flag
  (\<open>strip()\<close>), the default (\<open>default(v)\<close>; a default given as a function is called
  when the default is needed, and its result stands here), the transforms
  (\<open>transform(f)\<close>) and the tests with their messages (\<open>matches\<close>, \<open>length\<close>).
\<close>

datatype message = validateAddressFormat | validate6 | validate32

record 'a schema =
  strip_flag :: bool
  default_value :: "'a option"
  transforms :: "('a \<Rightarrow> 'a) list"
  tests :: "(message \<times> ('a \<Rightarrow> bool)) list"

definition mixed :: "'a schema" where
  "mixed = \<lparr>strip_flag = False, default_value = None, transforms = [], tests = []\<rparr>"

definition Yup_string :: "string schema" where
  "Yup_string = mixed"

definition Yup_boolean :: "bool schema" where
  "Yup_boolean = mixed"

definition strip :: "'a schema \<Rightarrow> 'a schema" where
  "strip s = s\<lparr>strip_flag := True\<rparr>"

definition default_to :: "'a \<Rightarrow> 'a schema \<Rightarrow> 'a schema" where
  "default_to v s = s\<lparr>default_value := Some v\<rparr>"

definition transform :: "('a \<Rightarrow> 'a) \<Rightarrow> 'a schema \<Rightarrow> 'a schema" where
  "transform f s = s\<lparr>transforms := transforms s @ [f]\<rparr>"

definition test :: "message \<Rightarrow> ('a \<Rightarrow> bool) \<Rightarrow> 'a schema \<Rightarrow> 'a schema" where
  "test m p s = s\<lparr>tests := tests s @ [(m, p)]\<rparr>"

definition matches :: "(string \<Rightarrow> bool) \<Rightarrow> message \<Rightarrow> string schema \<Rightarrow> string schema" where
  "matches regex m s = test m regex s"

definition length_yup :: "nat \<Rightarrow> message \<Rightarrow> string schema \<Rightarrow> string schema" where
  "length_yup n m s = test m (\<lambda>v. length v = n) s"

text \<open>
  \<open>base.concat(s)\<close>, which \<open>when\<close> applies where \<open>then\<close> or \<open>otherwise\<close> is a schema
  and not a function: what \<open>s\<close> sets wins, the tests and transforms of both are kept.
\<close>

definition concat_yup :: "'a schema \<Rightarrow> 'a schema \<Rightarrow> 'a schema" where
  "concat_yup base s =
     \<lparr>strip_flag = (strip_flag s \<or> strip_flag base),
      default_value = (case default_value s of Some v \<Rightarrow> Some v | None \<Rightarrow> default_value base),
      transforms = transforms base @ transforms s,
      tests = tests base @ tests s\<rparr>"

text \<open>
  Casting a leaf: \<open>undefined\<close> becomes the default (and stays \<open>undefined\<close> without
  one), any other value runs through the transforms. The enclosing object leaves a
  stripped property out of its result, and sets a property only when the cast value is
  not \<open>undefined\<close> (\<open>set_prop\<close>).
\<close>

definition cast_value :: "'a schema \<Rightarrow> 'a option \<Rightarrow> 'a option" where
  "cast_value s v =
     (case v of
        None \<Rightarrow> default_value s
      | Some x \<Rightarrow> Some (fold (\<lambda>f y. f y) (transforms s) x))"

definition cast_prop :: "'a schema \<Rightarrow> 'a option \<Rightarrow> 'a option" where
  "cast_prop s v = (if strip_flag s then None else cast_value s v)"

fun set_prop :: "'a option \<Rightarrow> 'a slot" where
  "set_prop None = Missing"
| "set_prop (Some x) = Value x"

text \<open>
  Validating a leaf of the object already cast: the tests of the source do not apply
  to an absent value; each failed test reports its message under the property's path.
\<close>

definition validate_value :: "string \<Rightarrow> 'a schema \<Rightarrow> 'a option \<Rightarrow> (string \<times> message) list" where
  "validate_value path s v =
     (case v of
        None \<Rightarrow> []
      | Some x \<Rightarrow> map (\<lambda>t. (path, fst t)) (filter (\<lambda>t. \<not> snd t x) (tests s)))"

text \<open>
  Object schemas for a key envelope: \<open>Yup.object()\<close>, \<open>.strip()\<close> and
  \<open>.shape({ key: ... })\<close>. A field of a shape is a schema or a lazy schema
  (\<open>Yup.lazy(() => ...)\<close>), which is resolved when it is cast or validated.
\<close>

record object_schema =
  object_strip :: bool
  key_field :: "string schema option"

datatype field_schema = Plain object_schema | Lazy object_schema

definition Yup_object :: object_schema where
  "Yup_object = \<lparr>object_strip = False, key_field = None\<rparr>"

definition strip_object :: "object_schema \<Rightarrow> object_schema" where
  "strip_object os = os\<lparr>object_strip := True\<rparr>"

definition shape :: "string schema \<Rightarrow> object_schema \<Rightarrow> object_schema" where
  "shape ks os = os\<lparr>key_field := Some ks\<rparr>"

fun resolve :: "field_schema \<Rightarrow> object_schema" where
  "resolve (Plain os) = os"
| "resolve (Lazy os) = os"

text \<open>
  The default of an object schema: \<open>undefined\<close> without fields, otherwise an object
  that has every field of the shape as a property, holding the field's default
  (\<open>default_prop\<close>: the property is there even when the default is \<open>undefined\<close>). A
  lazy schema has no \<open>default\<close> method, so the enclosing object takes \<open>undefined\<close>
  for it. Neither the strip flag of a field nor its cast plays a part in the default.
\<close>

fun default_prop :: "'a option \<Rightarrow> 'a slot" where
  "default_prop None = Undefined"
| "default_prop (Some x) = Value x"

definition object_default :: "object_schema \<Rightarrow> key_envelope option" where
  "object_default os =
     (case key_field os of
        None \<Rightarrow> None
      | Some ks \<Rightarrow> Some \<lparr>key = default_prop (default_value ks), key_rest = []\<rparr>)"

fun field_default :: "field_schema \<Rightarrow> key_envelope option" where
  "field_default (Plain os) = object_default os"
| "field_default (Lazy os) = None"

text \<open>
  Casting an object: \<open>undefined\<close> becomes the schema's default; an object has every
  field of the shape cast and every other property copied.
\<close>

definition cast_object :: "object_schema \<Rightarrow> key_envelope option \<Rightarrow> key_envelope option" where
  "cast_object os v =
     (case v of
        None \<Rightarrow> object_default os
      | Some ko \<Rightarrow>
          Some (case key_field os of
                  None \<Rightarrow> ko
                | Some ks \<Rightarrow> ko\<lparr>key := set_prop (cast_prop ks (read (key ko)))\<rparr>))"

definition cast_field :: "field_schema \<Rightarrow> key_envelope slot \<Rightarrow> key_envelope slot" where
  "cast_field f p =
     (let os = resolve f
      in if object_strip os then Missing else set_prop (cast_object os (read p)))"

definition validate_object :: "string \<Rightarrow> object_schema \<Rightarrow> key_envelope option \<Rightarrow> (string \<times> message) list" where
  "validate_object path os v =
     (case v of
        None \<Rightarrow> []
      | Some ko \<Rightarrow>
          (case key_field os of
             None \<Rightarrow> []
           | Some ks \<Rightarrow> validate_value (path @ ''.key'') ks (read (key ko))))"

definition validate_field :: "string \<Rightarrow> field_schema \<Rightarrow> key_envelope slot \<Rightarrow> (string \<times> message) list" where
  "validate_field path f p = validate_object path (resolve f) (read p)"

text \<open>The schema of \<open>root_keys\<close> once its condition is resolved: a shape of two fields.\<close>

record root_keys_schema =
  nwk_key_schema :: field_schema
  app_key_schema :: field_schema

definition root_keys_default :: "root_keys_schema \<Rightarrow> root_keys_object" where
  "root_keys_default rs =
     \<lparr>nwk_key = default_prop (field_default (nwk_key_schema rs)),
      app_key = default_prop (field_default (app_key_schema rs)),
      root_keys_rest = []\<rparr>"

definition cast_root_keys :: "root_keys_schema \<Rightarrow> root_keys_object option \<Rightarrow> root_keys_object option" where
  "cast_root_keys rs v =
     (case v of
        None \<Rightarrow> Some (root_keys_default rs)
      | Some rk \<Rightarrow>
          Some (rk\<lparr>nwk_key := cast_field (nwk_key_schema rs) (nwk_key rk),
                   app_key := cast_field (app_key_schema rs) (app_key rk)\<rparr>))"

text \<open>
  An object validates its fields side by side, each in a promise of its own, starting
  them in the reverse of the order in which the shape names them. The violations are
  listed in the order in which these promises reject: fields at the same depth in the
  order in which they were started.
\<close>

definition validate_root_keys :: "root_keys_schema \<Rightarrow> root_keys_object option \<Rightarrow> (string \<times> message) list" where
  "validate_root_keys rs v =
     (case v of
        None \<Rightarrow> []
      | Some rk \<Rightarrow>
          validate_field ''root_keys.app_key'' (app_key_schema rs) (app_key rk) @
          validate_field ''root_keys.nwk_key'' (nwk_key_schema rs) (nwk_key rk))"


section \<open>The validation schema\<close>

text \<open>
  What the schema module imports: the host name of the configured join server
  (\<^verbatim>\<open>new URL(jsConfig.base_url).hostname\<close>), the address pattern and the parser of
  LoRaWAN MAC versions. They are parameters here.
\<close>

record env =
  hostname :: string
  addressRegexp :: "string \<Rightarrow> bool"
  parseLorawanMacVersion :: "string option \<Rightarrow> int"

text \<open>
  The context of a cast or a validation. Either entry is \<open>None\<close> where the caller
  passes no context (or leaves the entry \<open>undefined\<close>).
\<close>

record ctx =
  externalJs :: "bool option"
  lorawanVersion :: "string option"

definition truthy :: "bool option \<Rightarrow> bool" where
  "truthy b = (b = Some True)"

text \<open>
  \<open>random16BytesString\<close> draws a fresh string at each call. One cast calls it at
  most once for each key; the strings it returns on these calls are given up front.
\<close>

record randoms =
  random_nwk_key :: string
  random_app_key :: string

definition is_hex_char :: "char \<Rightarrow> bool" where
  "is_hex_char c = (c \<in> set ''0123456789abcdefABCDEF'')"

text \<open>
  Modelled from the spec: the random-bytes generator \<open>randomByteString\<close>, which is
  not among the sources. Called as \<open>randomByteString(32)\<close> it produces a 16-byte
  string in hexadecimal, 32 characters.
\<close>

definition random16BytesString_result :: "string \<Rightarrow> bool" where
  "random16BytesString_result s = (length s = 32 \<and> list_all is_hex_char s)"

text \<open>
  Modelled from the spec: \<open>Yup.nullableString\<close> and \<open>emptyOrLength\<close>, the console's
  own additions to the library, which are not among the sources. The first is a string
  schema for an optional string; the second tests that the string, if non-empty, has
  exactly the given number of hexadecimal characters.
\<close>

definition nullableString :: "string schema" where
  "nullableString = Yup_string"

definition emptyOrLength :: "nat \<Rightarrow> message \<Rightarrow> string schema \<Rightarrow> string schema" where
  "emptyOrLength n m s = test m (\<lambda>v. v = [] \<or> (length v = n \<and> list_all is_hex_char v)) s"

text \<open>
  The fields of \<open>validationSchema\<close>, each with its \<open>when\<close> condition resolved under
  the context. \<open>is: false\<close> and \<open>is: true\<close> compare with \<open>===\<close>; the function given
  for \<open>root_keys\<close> tests \<open>externalJs\<close> for truthiness.
\<close>

definition join_server_address_schema :: "env \<Rightarrow> ctx \<Rightarrow> string schema" where
  "join_server_address_schema e c =
     (if externalJs c = Some False
      then default_to (hostname e) (matches (addressRegexp e) validateAddressFormat Yup_string)
      else strip Yup_string)"

definition net_id_schema :: "ctx \<Rightarrow> string schema" where
  "net_id_schema c =
     (if externalJs c = Some True
      then concat_yup Yup_string (strip Yup_string)
      else concat_yup Yup_string (default_to [] (emptyOrLength (3 * 2) validate6 nullableString)))"

definition strippedSchema :: field_schema where
  "strippedSchema = Plain (strip_object Yup_object)"

definition keySchema :: "bool option \<Rightarrow> string \<Rightarrow> field_schema" where
  "keySchema ext r =
     Lazy (if \<not> truthy ext
           then shape (default_to r (length_yup (16 * 2) validate32 Yup_string)) Yup_object
           else strip_object Yup_object)"

definition root_keys_schema_of :: "env \<Rightarrow> randoms \<Rightarrow> ctx \<Rightarrow> root_keys_schema" where
  "root_keys_schema_of e r c =
     (if truthy (externalJs c)
      then \<lparr>nwk_key_schema = strippedSchema, app_key_schema = strippedSchema\<rparr>
      else if parseLorawanMacVersion e (lorawanVersion c) < 110
      then \<lparr>nwk_key_schema = strippedSchema,
            app_key_schema = keySchema (externalJs c) (random_app_key r)\<rparr>
      else \<lparr>nwk_key_schema = keySchema (externalJs c) (random_nwk_key r),
            app_key_schema = keySchema (externalJs c) (random_app_key r)\<rparr>)"

definition resets_join_nonces_schema :: "env \<Rightarrow> ctx \<Rightarrow> bool schema" where
  "resets_join_nonces_schema e c =
     (if parseLorawanMacVersion e (lorawanVersion c) \<ge> 110
      then default_to False Yup_boolean
      else strip Yup_boolean)"

definition external_js_schema :: "ctx \<Rightarrow> bool schema" where
  "external_js_schema c =
     (if externalJs c = Some True
      then concat_yup Yup_boolean (transform (\<lambda>_. True) (default_to True Yup_boolean))
      else concat_yup Yup_boolean (transform (\<lambda>_. False) (default_to False Yup_boolean)))"

text \<open>
  \<open>validationSchema.cast(values, { context })\<close>: every field of the shape is cast,
  a stripped one is left out, every other property is copied.
\<close>

definition validationSchema_cast :: "env \<Rightarrow> randoms \<Rightarrow> ctx \<Rightarrow> 'o device \<Rightarrow> 'o device" where
  "validationSchema_cast e r c v =
     v\<lparr>join_server_address := cast_prop (join_server_address_schema e c) (join_server_address v),
       net_id := cast_prop (net_id_schema c) (net_id v),
       root_keys := cast_root_keys (root_keys_schema_of e r c) (root_keys v),
       resets_join_nonces := cast_prop (resets_join_nonces_schema e c) (resets_join_nonces v),
       external_js := cast_prop (external_js_schema c) (external_js v)\<rparr>"

text \<open>
  \<open>validationSchema.validate(values, { context })\<close>: the value is cast, then the
  fields of the result are tested, each in a promise of its own. With the library's
  default options (\<open>abortEarly\<close>) the promise of \<open>validate\<close> rejects as soon as one of
  them rejects, with that one error; it resolves with the cast value when none does.

  The shape names \<open>join_server_address\<close>, \<open>net_id\<close>, \<open>root_keys\<close>,
  \<open>resets_join_nonces\<close>, \<open>_external_js\<close>, and the validations start in the reverse
  order. \<open>net_id\<close> and \<open>join_server_address\<close> are strings with one test each, so their
  promises take the same number of steps and \<open>net_id\<close>, started first, rejects first.
  The keys are tested two objects further down and reject after both. The two
  booleans have no test.
\<close>

definition violations :: "env \<Rightarrow> randoms \<Rightarrow> ctx \<Rightarrow> 'o device \<Rightarrow> (string \<times> message) list" where
  "violations e r c v =
     validate_value ''_external_js'' (external_js_schema c) (external_js v) @
     validate_value ''resets_join_nonces'' (resets_join_nonces_schema e c) (resets_join_nonces v) @
     validate_value ''net_id'' (net_id_schema c) (net_id v) @
     validate_value ''join_server_address'' (join_server_address_schema e c) (join_server_address v) @
     validate_root_keys (root_keys_schema_of e r c) (root_keys v)"

definition validationSchema_validate :: "env \<Rightarrow> randoms \<Rightarrow> ctx \<Rightarrow> 'o device \<Rightarrow> (string \<times> message) + 'o device" where
  "validationSchema_validate e r c v =
     (let casted = validationSchema_cast e r c v
      in case violations e r c casted of
           [] \<Rightarrow> Inr casted
         | first_error # others \<Rightarrow> Inl first_error)"


section \<open>The form controller\<close>

text \<open>
  What the component is given: its props (\<open>device\<close>, \<open>onSubmit\<close>) and what its
  module imports besides the schema (\<open>hasExternalJs\<close>, \<open>diff\<close>). \<open>onSubmit\<close> returns
  how its promise settles: \<open>None\<close> when it resolves, \<open>Some err\<close> when it rejects with
  \<open>err\<close>. \<open>initial_randoms\<close> are the strings the generator returns during the
  memoized cast of the initial values.
\<close>

record ('o, 'd, 'x) component =
  schema_env :: env
  device_prop :: "'o device"
  onSubmit :: "'d \<Rightarrow> 'x option"
  hasExternalJs :: "'o device \<Rightarrow> bool"
  diff :: "'o device \<Rightarrow> 'o device \<Rightarrow> string list \<Rightarrow> 'd"
  initial_randoms :: randoms

text \<open>
  The state: the two flags and the error kept with \<open>useState\<close> (\<open>None\<close> is the empty
  string the error starts with), the form library's own state (the current values, the
  baseline the form resets to, the submitting flag), and the arguments \<open>onSubmit\<close> has
  been called with so far.
\<close>

record ('o, 'd, 'x) state =
  st_resetsJoinNonces :: bool
  st_externalJs :: bool
  st_error :: "'x option"
  form_values :: "'o device"
  form_baseline :: "'o device"
  form_submitting :: bool
  submitted :: "'d list"

definition current_context :: "('o, 'd, 'x) component \<Rightarrow> bool \<Rightarrow> ctx" where
  "current_context cmp ext =
     \<lparr>externalJs = Some ext, lorawanVersion = lorawan_version (device_prop cmp)\<rparr>"

definition initialValues :: "('o, 'd, 'x) component \<Rightarrow> 'o device" where
  "initialValues cmp =
     validationSchema_cast (schema_env cmp) (initial_randoms cmp)
       (current_context cmp (hasExternalJs cmp (device_prop cmp))) (device_prop cmp)"

definition initialState :: "('o, 'd, 'x) component \<Rightarrow> ('o, 'd, 'x) state" where
  "initialState cmp =
     \<lparr>st_resetsJoinNonces =
        (case resets_join_nonces (device_prop cmp) of None \<Rightarrow> False | Some b \<Rightarrow> b),
      st_externalJs = hasExternalJs cmp (device_prop cmp),
      st_error = None,
      form_values = initialValues cmp,
      form_baseline = initialValues cmp,
      form_submitting = False,
      submitted = []\<rparr>"

text \<open>\<^verbatim>\<open>setResetsJoinNonces(externalJs ? false : resetsJoinNonces)\<close>\<close>

definition handleResetsJoinNoncesChange :: "('o, 'd, 'x) state \<Rightarrow> ('o, 'd, 'x) state" where
  "handleResetsJoinNoncesChange st =
     st\<lparr>st_resetsJoinNonces := (if st_externalJs st then False else st_resetsJoinNonces st)\<rparr>"

text \<open>
  \<^verbatim>\<open>setExternalJs(!externalJs)\<close>, then \<^verbatim>\<open>setValues(validationSchema.cast(initialValues,
  { context: { externalJs: externalJsChecked, lorawanVersion } }))\<close>, where
  \<open>externalJsChecked\<close> is the state of the checkbox in the event.
\<close>

definition handleExternalJsChange ::
    "('o, 'd, 'x) component \<Rightarrow> randoms \<Rightarrow> bool \<Rightarrow> ('o, 'd, 'x) state \<Rightarrow> ('o, 'd, 'x) state" where
  "handleExternalJsChange cmp r externalJsChecked st =
     st\<lparr>st_externalJs := \<not> st_externalJs st,
        form_values :=
          validationSchema_cast (schema_env cmp) r (current_context cmp externalJsChecked)
            (initialValues cmp)\<rparr>"

text \<open>
  \<open>resetForm(nextValues)\<close> of the form library: the given values become the values
  and the baseline of the form, and the form is no longer submitting.
\<close>

definition resetForm :: "'o device \<Rightarrow> ('o, 'd, 'x) state \<Rightarrow> ('o, 'd, 'x) state" where
  "resetForm nextValues st =
     st\<lparr>form_values := nextValues, form_baseline := nextValues, form_submitting := False\<rparr>"

text \<open>
  \<open>onFormSubmit(values, { setSubmitting, resetForm })\<close>. The call of \<open>onSubmit\<close> is
  awaited; the handler is taken as one step.
\<close>

definition onFormSubmit ::
    "('o, 'd, 'x) component \<Rightarrow> randoms \<Rightarrow> 'o device \<Rightarrow> ('o, 'd, 'x) state \<Rightarrow> ('o, 'd, 'x) state" where
  "onFormSubmit cmp r values st =
     (let castedValues =
            validationSchema_cast (schema_env cmp) r (current_context cmp (st_externalJs st)) values;
          updatedValues =
            diff cmp (initialValues cmp) castedValues [''_external_js'', ''_lorawan_version''];
          st1 = st\<lparr>st_error := None, submitted := submitted st @ [updatedValues]\<rparr>
      in case onSubmit cmp updatedValues of
           None \<Rightarrow> resetForm castedValues st1
         | Some err \<Rightarrow> st1\<lparr>form_submitting := False, st_error := Some err\<rparr>)"

text \<open>
  The \<open>validate\<close> callback: \<^verbatim>\<open>validationSchema.validate({ context: { externalJs,
  lorawanVersion } })\<close>. The object literal is the first argument of \<open>validate\<close>, the
  value; there is no second argument, so the validation runs without a context.
\<close>

definition context_only :: "ctx \<Rightarrow> ctx device" where
  "context_only c =
     \<lparr>join_server_address = None, net_id = None, root_keys = None,
      resets_join_nonces = None, external_js = None, lorawan_version = None, rest = c\<rparr>"

definition no_context :: ctx where
  "no_context = \<lparr>externalJs = None, lorawanVersion = None\<rparr>"

definition validate_callback ::
    "('o, 'd, 'x) component \<Rightarrow> randoms \<Rightarrow> ('o, 'd, 'x) state \<Rightarrow> (string \<times> message) + ctx device" where
  "validate_callback cmp r st =
     validationSchema_validate (schema_env cmp) r no_context
       (context_only (current_context cmp (st_externalJs st)))"

text \<open>What can happen to a mounted form: the handlers, and an edit of the form's values.\<close>

datatype 'o event =
    ResetsJoinNoncesChange
  | ExternalJsChange bool randoms
  | Edit "'o device"
  | Submit randoms

fun step :: "('o, 'd, 'x) component \<Rightarrow> 'o event \<Rightarrow> ('o, 'd, 'x) state \<Rightarrow> ('o, 'd, 'x) state" where
  "step cmp ResetsJoinNoncesChange st = handleResetsJoinNoncesChange st"
| "step cmp (ExternalJsChange checked r) st = handleExternalJsChange cmp r checked st"
| "step cmp (Edit v) st = st\<lparr>form_values := v\<rparr>"
| "step cmp (Submit r) st = onFormSubmit cmp r (form_values st) st"

definition run :: "('o, 'd, 'x) component \<Rightarrow> 'o event list \<Rightarrow> ('o, 'd, 'x) state \<Rightarrow> ('o, 'd, 'x) state" where
  "run cmp evs st = fold (step cmp) evs st"


section \<open>Reading the keys\<close>

text \<open>
  \<open>values.root_keys.nwk_key.key\<close> and \<open>values.root_keys.app_key.key\<close>, read through
  the optional objects on the way: \<open>None\<close> when \<open>root_keys\<close>, the key envelope or its
  \<open>key\<close> reads as \<open>undefined\<close>.
\<close>

definition nwk_key_key :: "'o device \<Rightarrow> string option" where
  "nwk_key_key v =
     Option.bind (Option.bind (root_keys v) (\<lambda>rk. read (nwk_key rk))) (\<lambda>ko. read (key ko))"

definition app_key_key :: "'o device \<Rightarrow> string option" where
  "app_key_key v =
     Option.bind (Option.bind (root_keys v) (\<lambda>rk. read (app_key rk))) (\<lambda>ko. read (key ko))"


section \<open>Example inputs\<close>

text \<open>
  A join server configuration, two devices on LoRaWAN 1.1.0 (one whose network key is
  withheld by the join server, one without root keys), the strings the generator
  returns on two occasions, and components around the devices. The example \<open>diff\<close>
  lists the names of the top-level fields that differ, without the excluded names. The
  example \<open>onSubmit\<close> rejects a change of \<open>net_id\<close>; the one of the last component
  rejects whatever it is given. \<open>hasExternalJs\<close> goes by the address of the join server,
  and by the presence of \<open>root_keys\<close> in the third component.
\<close>

definition example_env :: env where
  "example_env =
     \<lparr>hostname = ''js.example.com'',
      addressRegexp = (\<lambda>s. s \<noteq> [] \<and> CHR '' '' \<notin> set s),
      parseLorawanMacVersion =
        (\<lambda>v. if v = Some ''1.1.0'' then 110 else if v = Some ''1.0.3'' then 103 else 0)\<rparr>"

definition example_randoms :: randoms where
  "example_randoms =
     \<lparr>random_nwk_key = ''0123456789abcdef0123456789abcdef'',
      random_app_key = ''fedcba9876543210fedcba9876543210''\<rparr>"

definition other_randoms :: randoms where
  "other_randoms =
     \<lparr>random_nwk_key = ''00000000000000000000000000000001'',
      random_app_key = ''00000000000000000000000000000002''\<rparr>"

definition example_device :: "unit device" where
  "example_device =
     \<lparr>join_server_address = Some ''js.example.com'',
      net_id = Some ''abc123'',
      root_keys =
        Some \<lparr>nwk_key = Value \<lparr>key = Missing, key_rest = []\<rparr>,
              app_key = Value \<lparr>key = Value ''00112233445566778899aabbccddeeff'', key_rest = []\<rparr>,
              root_keys_rest = []\<rparr>,
      resets_join_nonces = Some True,
      external_js = None,
      lorawan_version = Some ''1.1.0'',
      rest = ()\<rparr>"

definition bare_device :: "unit device" where
  "bare_device =
     \<lparr>join_server_address = Some ''js.example.com'',
      net_id = None,
      root_keys = None,
      resets_join_nonces = None,
      external_js = None,
      lorawan_version = Some ''1.1.0'',
      rest = ()\<rparr>"

definition internal_context :: ctx where
  "internal_context = \<lparr>externalJs = Some False, lorawanVersion = Some ''1.1.0''\<rparr>"

definition external_context :: ctx where
  "external_context = \<lparr>externalJs = Some True, lorawanVersion = Some ''1.1.0''\<rparr>"

definition example_diff :: "unit device \<Rightarrow> unit device \<Rightarrow> string list \<Rightarrow> string list" where
  "example_diff a b exclude =
     filter (\<lambda>k. k \<notin> set exclude)
       ((if join_server_address a = join_server_address b then [] else [''join_server_address'']) @
        (if net_id a = net_id b then [] else [''net_id'']) @
        (if root_keys a = root_keys b then [] else [''root_keys'']) @
        (if resets_join_nonces a = resets_join_nonces b then [] else [''resets_join_nonces'']) @
        (if external_js a = external_js b then [] else [''_external_js'']))"

definition example_component :: "(unit, string list, string) component" where
  "example_component =
     \<lparr>schema_env = example_env,
      device_prop = example_device,
      onSubmit = (\<lambda>d. if ''net_id'' \<in> set d then Some ''net_id is fixed'' else None),
      hasExternalJs = (\<lambda>d. join_server_address d = None),
      diff = example_diff,
      initial_randoms = example_randoms\<rparr>"

definition bare_component :: "(unit, string list, string) component" where
  "bare_component = example_component\<lparr>device_prop := bare_device\<rparr>"

definition external_bare_component :: "(unit, string list, string) component" where
  "external_bare_component = bare_component\<lparr>hasExternalJs := \<lambda>d. root_keys d = None\<rparr>"

definition rejecting_component :: "(unit, string list, string) component" where
  "rejecting_component = bare_component\<lparr>onSubmit := \<lambda>u. Some ''unavailable''\<rparr>"


section \<open>Casting field by field\<close>

lemmas leaf_defs = Yup_string_def Yup_boolean_def mixed_def strip_def default_to_def transform_def
  test_def matches_def length_yup_def concat_yup_def nullableString_def emptyOrLength_def

lemma cast_join_server_address:
  "cast_prop (join_server_address_schema e c) v =
     (if externalJs c = Some False
      then Some (case v of None \<Rightarrow> hostname e | Some a \<Rightarrow> a) else None)"
  by (simp add: join_server_address_schema_def cast_prop_def cast_value_def leaf_defs
      split: option.splits)

lemma cast_net_id:
  "cast_prop (net_id_schema c) v =
     (if externalJs c = Some True then None
      else Some (case v of None \<Rightarrow> [] | Some a \<Rightarrow> a))"
  by (simp add: net_id_schema_def cast_prop_def cast_value_def leaf_defs split: option.splits)

lemma cast_resets_join_nonces:
  "cast_prop (resets_join_nonces_schema e c) v =
     (if 110 \<le> parseLorawanMacVersion e (lorawanVersion c)
      then Some (case v of None \<Rightarrow> False | Some b \<Rightarrow> b) else None)"
  by (simp add: resets_join_nonces_schema_def cast_prop_def cast_value_def leaf_defs
      split: option.splits)

lemma cast_external_js:
  "cast_prop (external_js_schema c) v = Some (externalJs c = Some True)"
  by (simp add: external_js_schema_def cast_prop_def cast_value_def leaf_defs
      split: option.splits)

lemma cast_field_strippedSchema: "cast_field strippedSchema p = Missing"
  by (simp add: cast_field_def strippedSchema_def strip_object_def Yup_object_def)

lemma field_default_strippedSchema: "field_default strippedSchema = None"
  by (simp add: strippedSchema_def strip_object_def Yup_object_def object_default_def)

lemma field_default_keySchema: "field_default (keySchema ext r) = None"
  by (simp add: keySchema_def)

lemma cast_field_keySchema:
  "cast_field (keySchema ext r) p =
     (if ext = Some True then Missing
      else Value (case read p of
                    None \<Rightarrow> \<lparr>key = Value r, key_rest = []\<rparr>
                  | Some ko \<Rightarrow>
                      ko\<lparr>key := Value (case read (key ko) of None \<Rightarrow> r | Some k \<Rightarrow> k)\<rparr>))"
  by (simp add: cast_field_def keySchema_def truthy_def strip_object_def Yup_object_def shape_def
      cast_object_def object_default_def cast_prop_def cast_value_def leaf_defs
      split: option.splits)

lemmas root_defs = root_keys_schema_of_def cast_root_keys_def root_keys_default_def truthy_def

lemma root_keys_cast:
  "root_keys (validationSchema_cast e r c d) =
     cast_root_keys (root_keys_schema_of e r c) (root_keys d)"
  by (simp add: validationSchema_cast_def)


lemma net_id_field:
  "net_id (validationSchema_cast e r c d) = cast_prop (net_id_schema c) (net_id d)"
  by (simp add: validationSchema_cast_def)

lemma cast_root_keys_external:
  "externalJs c = Some True \<Longrightarrow>
   cast_root_keys (root_keys_schema_of e r c) v =
     Some (case v of
             None \<Rightarrow> \<lparr>nwk_key = Undefined, app_key = Undefined, root_keys_rest = []\<rparr>
           | Some rk \<Rightarrow> rk\<lparr>nwk_key := Missing, app_key := Missing\<rparr>)"
  by (simp add: root_defs cast_field_strippedSchema field_default_strippedSchema
      split: option.splits)

lemma cast_root_keys_absent:
  "cast_root_keys (root_keys_schema_of e r c) None =
     Some \<lparr>nwk_key = Undefined, app_key = Undefined, root_keys_rest = []\<rparr>"
  by (simp add: root_defs field_default_strippedSchema field_default_keySchema)

lemma cast_root_keys_new:
  "externalJs c \<noteq> Some True \<Longrightarrow> 110 \<le> parseLorawanMacVersion e (lorawanVersion c) \<Longrightarrow>
   cast_root_keys (root_keys_schema_of e r c) (Some rk) =
     Some (rk\<lparr>nwk_key := cast_field (keySchema (externalJs c) (random_nwk_key r)) (nwk_key rk),
              app_key := cast_field (keySchema (externalJs c) (random_app_key r)) (app_key rk)\<rparr>)"
  by (simp add: root_defs)

lemma cast_root_keys_old:
  "externalJs c \<noteq> Some True \<Longrightarrow> parseLorawanMacVersion e (lorawanVersion c) < 110 \<Longrightarrow>
   cast_root_keys (root_keys_schema_of e r c) (Some rk) =
     Some (rk\<lparr>nwk_key := Missing,
              app_key := cast_field (keySchema (externalJs c) (random_app_key r)) (app_key rk)\<rparr>)"
  by (simp add: root_defs cast_field_strippedSchema)


text \<open>
  A second cast under the same context changes nothing, provided \<open>root_keys\<close> was there
  before the first one: the first cast then leaves every key either populated or
  removed, and a populated key is kept.
\<close>

lemma cast_field_keySchema_idem:
  "cast_field (keySchema ext r') (cast_field (keySchema ext r) p) = cast_field (keySchema ext r) p"
  by (simp add: cast_field_keySchema split: option.splits)

lemma cast_root_keys_idem:
  assumes "v \<noteq> None"
  shows "cast_root_keys (root_keys_schema_of e r' c) (cast_root_keys (root_keys_schema_of e r c) v) =
         cast_root_keys (root_keys_schema_of e r c) v"
proof -
  from assms obtain rk where v: "v = Some rk" by auto
  show ?thesis
  proof (cases "externalJs c = Some True")
    case True
    with v show ?thesis by (simp add: cast_root_keys_external)
  next
    case False
    show ?thesis
    proof (cases "110 \<le> parseLorawanMacVersion e (lorawanVersion c)")
      case True
      with False v show ?thesis by (simp add: cast_root_keys_new cast_field_keySchema_idem)
    next
      case old: False
      with False v show ?thesis by (simp add: cast_root_keys_old cast_field_keySchema_idem)
    qed
  qed
qed

lemma cast_idem:
  assumes "root_keys d \<noteq> None"
  shows "validationSchema_cast e r' c (validationSchema_cast e r c d) = validationSchema_cast e r c d"
  using cast_root_keys_idem [OF assms, of e r' c r]
  by (simp add: validationSchema_cast_def cast_join_server_address cast_net_id
      cast_resets_join_nonces cast_external_js)

lemma cast_twice_fields:
  "join_server_address (validationSchema_cast e r' c (validationSchema_cast e r c d)) =
     join_server_address (validationSchema_cast e r c d) \<and>
   net_id (validationSchema_cast e r' c (validationSchema_cast e r c d)) =
     net_id (validationSchema_cast e r c d) \<and>
   resets_join_nonces (validationSchema_cast e r' c (validationSchema_cast e r c d)) =
     resets_join_nonces (validationSchema_cast e r c d) \<and>
   external_js (validationSchema_cast e r' c (validationSchema_cast e r c d)) =
     external_js (validationSchema_cast e r c d)"
  by (simp add: validationSchema_cast_def cast_join_server_address cast_net_id
      cast_resets_join_nonces cast_external_js)


text \<open>
  What the cast does with a \<open>root_keys\<close> object: under \<open>externalJs = true\<close> both keys
  are removed from it; under \<open>externalJs = false\<close> and a version of at least 110 both
  keys are there afterwards, a key the device holds being kept and a missing one
  generated.
\<close>

lemma cast_external_js_present:
  assumes "externalJs c = Some True"
  shows "join_server_address (validationSchema_cast e r c d) = None \<and>
     net_id (validationSchema_cast e r c d) = None \<and>
     (\<forall>rk. root_keys d = Some rk \<longrightarrow>
        root_keys (validationSchema_cast e r c d) = Some (rk\<lparr>nwk_key := Missing, app_key := Missing\<rparr>))"
  using assms
  by (simp add: validationSchema_cast_def cast_join_server_address cast_net_id
      cast_root_keys_external)

lemma cast_generates_keys_present:
  assumes "externalJs c = Some False"
    and "110 \<le> parseLorawanMacVersion e (lorawanVersion c)"
    and "root_keys d = Some rk"
  shows "nwk_key_key (validationSchema_cast e r c d) =
           Some (case Option.bind (read (nwk_key rk)) (\<lambda>ko. read (key ko)) of
                   None \<Rightarrow> random_nwk_key r | Some k \<Rightarrow> k) \<and>
         app_key_key (validationSchema_cast e r c d) =
           Some (case Option.bind (read (app_key rk)) (\<lambda>ko. read (key ko)) of
                   None \<Rightarrow> random_app_key r | Some k \<Rightarrow> k) \<and>
         validationSchema_cast e r' c (validationSchema_cast e r c d) = validationSchema_cast e r c d"
proof -
  have ext: "externalJs c \<noteq> Some True" using assms(1) by simp
  have "nwk_key_key (validationSchema_cast e r c d) =
           Some (case Option.bind (read (nwk_key rk)) (\<lambda>ko. read (key ko)) of
                   None \<Rightarrow> random_nwk_key r | Some k \<Rightarrow> k) \<and>
         app_key_key (validationSchema_cast e r c d) =
           Some (case Option.bind (read (app_key rk)) (\<lambda>ko. read (key ko)) of
                   None \<Rightarrow> random_app_key r | Some k \<Rightarrow> k)"
    using assms(1,3)
    by (simp add: validationSchema_cast_def nwk_key_key_def app_key_key_def
        cast_root_keys_new [OF ext assms(2)] cast_field_keySchema split: option.splits)
  moreover have "validationSchema_cast e r' c (validationSchema_cast e r c d) =
      validationSchema_cast e r c d"
    using assms(3) by (simp add: cast_idem)
  ultimately show ?thesis by simp
qed


section \<open>Validating field by field\<close>

lemma validate_join_server_address:
  "x \<in> set (validate_value p (join_server_address_schema e c) v) \<longleftrightarrow>
     externalJs c = Some False \<and> (\<exists>a. v = Some a \<and> \<not> addressRegexp e a) \<and>
     x = (p, validateAddressFormat)"
  by (cases "externalJs c = Some False"; cases v)
     (auto simp: join_server_address_schema_def validate_value_def leaf_defs)

lemma validate_net_id:
  "x \<in> set (validate_value p (net_id_schema c) v) \<longleftrightarrow>
     externalJs c \<noteq> Some True \<and>
     (\<exists>a. v = Some a \<and> \<not> (a = [] \<or> (length a = 6 \<and> list_all is_hex_char a))) \<and>
     x = (p, validate6)"
  by (cases "externalJs c = Some True"; cases v)
     (auto simp: net_id_schema_def validate_value_def leaf_defs)

lemma validate_resets_join_nonces:
  "validate_value p (resets_join_nonces_schema e c) v = []"
  by (simp add: resets_join_nonces_schema_def validate_value_def leaf_defs split: option.splits)

lemma validate_external_js:
  "validate_value p (external_js_schema c) v = []"
  by (simp add: external_js_schema_def validate_value_def leaf_defs split: option.splits)

lemma validate_field_strippedSchema: "validate_field p strippedSchema v = []"
  by (simp add: validate_field_def validate_object_def strippedSchema_def strip_object_def
      Yup_object_def split: option.splits)

lemma validate_field_keySchema:
  "x \<in> set (validate_field p (keySchema ext r) v) \<longleftrightarrow>
     ext \<noteq> Some True \<and> (\<exists>ko k. read v = Some ko \<and> read (key ko) = Some k \<and> length k \<noteq> 32) \<and>
     x = (p @ ''.key'', validate32)"
  by (cases "ext = Some True"; cases "read v"; cases "read (key (the (read v)))")
     (auto simp: validate_field_def validate_object_def keySchema_def truthy_def strip_object_def
      Yup_object_def shape_def validate_value_def leaf_defs)

lemma validate_field_absent: "read p = None \<Longrightarrow> validate_field q f p = []"
  by (simp add: validate_field_def validate_object_def)

lemma validate_root_keys_message:
  assumes "(p, m) \<in> set (validate_root_keys (root_keys_schema_of e r c) v)"
  shows "(p = ''root_keys.nwk_key.key'' \<or> p = ''root_keys.app_key.key'') \<and> m = validate32"
proof (cases v)
  case None
  with assms show ?thesis by (simp add: validate_root_keys_def)
next
  case (Some rk)
  let ?S = "root_keys_schema_of e r c"
  have nwk: "nwk_key_schema ?S = strippedSchema \<or>
      nwk_key_schema ?S = keySchema (externalJs c) (random_nwk_key r)"
    by (simp add: root_keys_schema_of_def)
  have app: "app_key_schema ?S = strippedSchema \<or>
      app_key_schema ?S = keySchema (externalJs c) (random_app_key r)"
    by (simp add: root_keys_schema_of_def)
  from assms Some consider
    "(p, m) \<in> set (validate_field ''root_keys.nwk_key'' (nwk_key_schema ?S) (nwk_key rk))" |
    "(p, m) \<in> set (validate_field ''root_keys.app_key'' (app_key_schema ?S) (app_key rk))"
    by (auto simp: validate_root_keys_def)
  then show ?thesis
  proof cases
    case 1
    with nwk show ?thesis
      by (auto simp: validate_field_strippedSchema validate_field_keySchema)
  next
    case 2
    with app show ?thesis
      by (auto simp: validate_field_strippedSchema validate_field_keySchema)
  qed
qed

lemma net_id_violations:
  "validate_value p (net_id_schema c) v = [] \<or> validate_value p (net_id_schema c) v = [(p, validate6)]"
  by (cases "externalJs c = Some True"; cases v)
     (auto simp: net_id_schema_def validate_value_def leaf_defs)

lemma join_server_address_violations:
  "validate_value p (join_server_address_schema e c) v = [] \<or>
   validate_value p (join_server_address_schema e c) v = [(p, validateAddressFormat)]"
  by (cases "externalJs c = Some False"; cases v)
     (auto simp: join_server_address_schema_def validate_value_def leaf_defs)

lemma empty_iff_no_member: "xs = [] \<longleftrightarrow> (\<forall>x. x \<notin> set xs)"
  by (cases xs) auto

lemma net_id_passes:
  "validate_value p (net_id_schema c) v = [] \<longleftrightarrow>
     \<not> (externalJs c \<noteq> Some True \<and>
        (\<exists>a. v = Some a \<and> \<not> (a = [] \<or> (length a = 6 \<and> list_all is_hex_char a))))"
  unfolding empty_iff_no_member [of "validate_value p (net_id_schema c) v"] validate_net_id
  by blast

lemma join_server_address_passes:
  "validate_value p (join_server_address_schema e c) v = [] \<longleftrightarrow>
     \<not> (externalJs c = Some False \<and> (\<exists>a. v = Some a \<and> \<not> addressRegexp e a))"
  unfolding empty_iff_no_member [of "validate_value p (join_server_address_schema e c) v"]
    validate_join_server_address
  by blast

text \<open>
  Which way a validation goes: the error of \<open>net_id\<close> if there is one, else the error
  of \<open>join_server_address\<close> if there is one, else the first error among the keys, else
  the cast value.
\<close>

lemma validate_net_id_first:
  assumes "validate_value ''net_id'' (net_id_schema c) (net_id (validationSchema_cast e r c d)) \<noteq> []"
  shows "validationSchema_validate e r c d = Inl (''net_id'', validate6)"
proof -
  from assms net_id_violations [of "''net_id''" c "net_id (validationSchema_cast e r c d)"]
  have "validate_value ''net_id'' (net_id_schema c) (net_id (validationSchema_cast e r c d)) =
      [(''net_id'', validate6)]"
    by blast
  then show ?thesis
    by (simp add: validationSchema_validate_def violations_def validate_resets_join_nonces
        validate_external_js)
qed

lemma validate_join_server_address_second:
  assumes "validate_value ''net_id'' (net_id_schema c) (net_id (validationSchema_cast e r c d)) = []"
    and "validate_value ''join_server_address'' (join_server_address_schema e c)
           (join_server_address (validationSchema_cast e r c d)) \<noteq> []"
  shows "validationSchema_validate e r c d = Inl (''join_server_address'', validateAddressFormat)"
proof -
  from assms(2) join_server_address_violations [of "''join_server_address''" e c
      "join_server_address (validationSchema_cast e r c d)"]
  have "validate_value ''join_server_address'' (join_server_address_schema e c)
           (join_server_address (validationSchema_cast e r c d)) =
      [(''join_server_address'', validateAddressFormat)]"
    by blast
  with assms(1) show ?thesis
    by (simp add: validationSchema_validate_def violations_def validate_resets_join_nonces
        validate_external_js)
qed

lemma validate_keys_last:
  assumes "validate_value ''net_id'' (net_id_schema c) (net_id (validationSchema_cast e r c d)) = []"
    and "validate_value ''join_server_address'' (join_server_address_schema e c)
           (join_server_address (validationSchema_cast e r c d)) = []"
  shows "validationSchema_validate e r c d =
      (case validate_root_keys (root_keys_schema_of e r c) (root_keys (validationSchema_cast e r c d)) of
         [] \<Rightarrow> Inr (validationSchema_cast e r c d)
       | first_error # others \<Rightarrow> Inl first_error)"
  using assms
  by (simp add: validationSchema_validate_def violations_def validate_resets_join_nonces
      validate_external_js Let_def)

lemma validate_key_error:
  assumes "validate_value ''net_id'' (net_id_schema c) (net_id (validationSchema_cast e r c d)) = []"
    and "validate_value ''join_server_address'' (join_server_address_schema e c)
           (join_server_address (validationSchema_cast e r c d)) = []"
    and "validationSchema_validate e r c d = Inl (p, m)"
  shows "(p = ''root_keys.nwk_key.key'' \<or> p = ''root_keys.app_key.key'') \<and> m = validate32"
proof -
  let ?ks = "validate_root_keys (root_keys_schema_of e r c) (root_keys (validationSchema_cast e r c d))"
  from assms(3) validate_keys_last [OF assms(1,2)] obtain others where "?ks = (p, m) # others"
    by (cases ?ks) auto
  then have "(p, m) \<in> set ?ks" by simp
  then show ?thesis by (rule validate_root_keys_message)
qed


text \<open>
  Without a context and without any of the schema's fields in the value, the
  validation finds nothing to object to.
\<close>

lemma validate_without_context:
  "validationSchema_validate e r no_context (context_only c) =
     Inr (validationSchema_cast e r no_context (context_only c))"
proof -
  let ?v = "validationSchema_cast e r no_context (context_only c)"
  have address: "validate_value ''join_server_address''
          (join_server_address_schema e no_context) (join_server_address ?v) = []"
    by (simp add: join_server_address_passes no_context_def)
  have "net_id ?v = Some []"
    by (simp add: net_id_field cast_net_id no_context_def context_only_def)
  then have net: "validate_value ''net_id'' (net_id_schema no_context) (net_id ?v) = []"
    by (simp add: net_id_passes)
  have "root_keys ?v = Some \<lparr>nwk_key = Undefined, app_key = Undefined, root_keys_rest = []\<rparr>"
    by (simp add: root_keys_cast context_only_def cast_root_keys_absent)
  then have keys: "validate_root_keys (root_keys_schema_of e r no_context) (root_keys ?v) = []"
    by (simp add: validate_root_keys_def validate_field_absent)
  from validate_keys_last [OF net address] keys show ?thesis by simp
qed


section \<open>The handlers\<close>

lemma form_values_toggle:
  "form_values (handleExternalJsChange cmp r checked st) =
     validationSchema_cast (schema_env cmp) r (current_context cmp checked) (initialValues cmp)"
  by (simp add: handleExternalJsChange_def)

lemma root_keys_initialValues: "root_keys (initialValues cmp) \<noteq> None"
  by (simp add: initialValues_def root_keys_cast cast_root_keys_def split: option.splits)

lemma step_resetsJoinNonces:
  "\<not> st_resetsJoinNonces st \<Longrightarrow> \<not> st_resetsJoinNonces (step cmp ev st)"
  by (cases ev)
     (simp_all add: handleResetsJoinNoncesChange_def handleExternalJsChange_def
        onFormSubmit_def resetForm_def Let_def split: option.splits)

lemma run_resetsJoinNonces:
  "\<not> st_resetsJoinNonces st \<Longrightarrow> \<not> st_resetsJoinNonces (run cmp evs st)"
  unfolding run_def
proof (induction evs arbitrary: st)
  case Nil
  then show ?case by simp
next
  case (Cons ev evs)
  from Cons.prems have "\<not> st_resetsJoinNonces (step cmp ev st)" by (rule step_resetsJoinNonces)
  then show ?case using Cons.IH by simp
qed

lemma validate_callback_resolves:
  "validate_callback cmp r st =
     Inr (validationSchema_cast (schema_env cmp) r no_context
            (context_only (current_context cmp (st_externalJs st))))"
  by (simp add: validate_callback_def validate_without_context)


section \<open>The hidden-key predicates on objects\<close>

text \<open>
  On a device with a \<open>root_keys\<close> object the predicates are false for a missing key
  field, true for a key object exactly when it has no property, and throw on a key
  field that is \<open>null\<close>; without \<open>root_keys\<close> they are false.
\<close>

lemma isKeyHidden_object:
  assumes "map_of ps ''root_keys'' = Some (JObject qs)"
  shows "isKeyHidden name (JObject ps) =
     (case map_of qs name of
        None \<Rightarrow> Inr False
      | Some k \<Rightarrow>
          if \<not> typeof_is_object k then Inr False
          else (case Object_keys_length k of Inl err \<Rightarrow> Inl err | Inr n \<Rightarrow> Inr (n = 0)))"
  using assms by (simp add: isKeyHidden_def split: option.splits)

lemma hidden_key_predicates:
  assumes "map_of ps ''root_keys'' = Some (JObject qs)"
  shows "(map_of qs ''nwk_key'' = None \<longrightarrow> isNwkKeyHidden (JObject ps) = Inr False) \<and>
     (map_of qs ''nwk_key'' = Some (JObject ks) \<longrightarrow> isNwkKeyHidden (JObject ps) = Inr (ks = [])) \<and>
     (map_of qs ''nwk_key'' = Some JNull \<longrightarrow> isNwkKeyHidden (JObject ps) = Inl TypeError) \<and>
     (map_of qs ''app_key'' = None \<longrightarrow> isAppKeyHidden (JObject ps) = Inr False) \<and>
     (map_of qs ''app_key'' = Some (JObject ks) \<longrightarrow> isAppKeyHidden (JObject ps) = Inr (ks = [])) \<and>
     (map_of qs ''app_key'' = Some JNull \<longrightarrow> isAppKeyHidden (JObject ps) = Inl TypeError)"
  by (simp add: isNwkKeyHidden_def isAppKeyHidden_def isKeyHidden_object [OF assms])

lemma hidden_key_no_root_keys:
  "map_of ps ''root_keys'' = None \<Longrightarrow>
   isNwkKeyHidden (JObject ps) = Inr False \<and> isAppKeyHidden (JObject ps) = Inr False"
  by (simp add: isNwkKeyHidden_def isAppKeyHidden_def isKeyHidden_def)


section \<open>Facts about the examples\<close>

lemma example_component_simps:
  "schema_env example_component = example_env"
  "device_prop example_component = example_device"
  "hasExternalJs example_component d = (join_server_address d = None)"
  "diff example_component = example_diff"
  "initial_randoms example_component = example_randoms"
  "onSubmit example_component u = (if ''net_id'' \<in> set u then Some ''net_id is fixed'' else None)"
  by (simp_all add: example_component_def)

lemma bare_component_simps:
  "schema_env bare_component = example_env"
  "device_prop bare_component = bare_device"
  "hasExternalJs bare_component d = (join_server_address d = None)"
  "initial_randoms bare_component = example_randoms"
  by (simp_all add: bare_component_def example_component_def)

lemma example_device_simps:
  "join_server_address example_device = Some ''js.example.com''"
  "net_id example_device = Some ''abc123''"
  "root_keys example_device \<noteq> None"
  "resets_join_nonces example_device = Some True"
  "lorawan_version example_device = Some ''1.1.0''"
  "join_server_address bare_device = Some ''js.example.com''"
  "root_keys bare_device = None"
  "lorawan_version bare_device = Some ''1.1.0''"
  by (simp_all add: example_device_def bare_device_def)

lemma example_randoms_ok:
  "random16BytesString_result (random_nwk_key example_randoms)"
  "random16BytesString_result (random_app_key example_randoms)"
  by (simp_all add: example_randoms_def random16BytesString_result_def is_hex_char_def)

lemma example_diff_same: "example_diff a a exclude = []"
  by (simp add: example_diff_def)

lemma example_diff_net_id:
  "''net_id'' \<in> set (example_diff a b [''_external_js'', ''_lorawan_version'']) \<longleftrightarrow>
   net_id a \<noteq> net_id b"
  by (simp add: example_diff_def)

lemma example_initialValues_fixed:
  "validationSchema_cast example_env r (current_context example_component False)
     (initialValues example_component) = initialValues example_component"
  by (simp add: initialValues_def example_component_simps example_device_simps cast_idem)

lemma round_trip_without_root_keys:
  assumes "schema_env cmp = example_env" and "device_prop cmp = bare_device"
  shows "nwk_key_key (initialValues cmp) = None \<and>
     nwk_key_key
       (form_values
          (handleExternalJsChange cmp other_randoms False
             (handleExternalJsChange cmp other_randoms True st))) =
       Some ''00000000000000000000000000000001''"
proof -
  let ?c = "current_context cmp False"
  have ext: "externalJs ?c \<noteq> Some True" by (simp add: current_context_def)
  have ver: "110 \<le> parseLorawanMacVersion example_env (lorawanVersion ?c)"
    by (simp add: current_context_def assms example_device_simps example_env_def)
  have iv: "root_keys (initialValues cmp) =
      Some \<lparr>nwk_key = Undefined, app_key = Undefined, root_keys_rest = []\<rparr>"
    by (simp add: initialValues_def root_keys_cast assms example_device_simps cast_root_keys_absent)
  then have before: "nwk_key_key (initialValues cmp) = None"
    by (simp add: nwk_key_key_def)
  have "root_keys (validationSchema_cast example_env other_randoms ?c (initialValues cmp)) =
      cast_root_keys (root_keys_schema_of example_env other_randoms ?c)
        (Some \<lparr>nwk_key = Undefined, app_key = Undefined, root_keys_rest = []\<rparr>)"
    by (simp add: root_keys_cast iv)
  then have "nwk_key_key (validationSchema_cast example_env other_randoms ?c (initialValues cmp)) =
      Some (random_nwk_key other_randoms)"
    by (simp add: nwk_key_key_def cast_root_keys_new [OF ext ver] cast_field_keySchema ext)
  then have "nwk_key_key
       (form_values
          (handleExternalJsChange cmp other_randoms False
             (handleExternalJsChange cmp other_randoms True st))) =
       Some ''00000000000000000000000000000001''"
    unfolding form_values_toggle assms by (simp add: other_randoms_def)
  with before show ?thesis by simp
qed


section \<open>The claims\<close>

text \<open>
  C1. Under a context with \<open>externalJs = true\<close> a cast should hold none of
  \<open>join_server_address\<close>, \<open>net_id\<close>, \<open>root_keys.nwk_key\<close> and \<open>root_keys.app_key\<close>. It
  does when the device has a \<open>root_keys\<close> object (\<open>cast_external_js_present\<close>). For the
  device without \<open>root_keys\<close> the cast returns the default object of the schema, which
  has \<open>nwk_key\<close> and \<open>app_key\<close> as properties holding \<open>undefined\<close>; the same device with
  an empty \<open>root_keys\<close> object gets neither property.
\<close>

theorem cast_external_js_absent_root_keys:
  "externalJs external_context = Some True \<and>
   root_keys bare_device = None \<and>
   root_keys (validationSchema_cast example_env example_randoms external_context bare_device) =
     Some \<lparr>nwk_key = Undefined, app_key = Undefined, root_keys_rest = []\<rparr> \<and>
   root_keys (validationSchema_cast example_env example_randoms external_context
      (bare_device\<lparr>root_keys := Some \<lparr>nwk_key = Missing, app_key = Missing, root_keys_rest = []\<rparr>\<rparr>)) =
     Some \<lparr>nwk_key = Missing, app_key = Missing, root_keys_rest = []\<rparr>"
  by (simp add: root_keys_cast cast_root_keys_external external_context_def bare_device_def)


text \<open>
  C2. Under a context with \<open>externalJs = false\<close> and a parsed version of at least 110,
  the cast of a device with absent \<open>root_keys\<close> should hold both keys, and a second cast
  should change nothing. For the device without \<open>root_keys\<close> the first cast generates
  no key, since the default object of the schema does not ask the key schemas; the
  second cast finds a \<open>root_keys\<close> object, generates the keys and so changes the
  output of the first. The same device with an empty \<open>root_keys\<close> object gets its key
  on the first cast.
\<close>

theorem cast_absent_root_keys_generates_no_key:
  "externalJs internal_context = Some False \<and>
   110 \<le> parseLorawanMacVersion example_env (lorawanVersion internal_context) \<and>
   root_keys bare_device = None \<and>
   root_keys (validationSchema_cast example_env example_randoms internal_context bare_device) =
     Some \<lparr>nwk_key = Undefined, app_key = Undefined, root_keys_rest = []\<rparr> \<and>
   nwk_key_key (validationSchema_cast example_env example_randoms internal_context bare_device) = None \<and>
   app_key_key (validationSchema_cast example_env example_randoms internal_context bare_device) = None \<and>
   nwk_key_key (validationSchema_cast example_env other_randoms internal_context
     (validationSchema_cast example_env example_randoms internal_context bare_device)) =
     Some ''00000000000000000000000000000001'' \<and>
   validationSchema_cast example_env other_randoms internal_context
     (validationSchema_cast example_env example_randoms internal_context bare_device) \<noteq>
   validationSchema_cast example_env example_randoms internal_context bare_device \<and>
   nwk_key_key (validationSchema_cast example_env example_randoms internal_context
     (bare_device\<lparr>root_keys := Some \<lparr>nwk_key = Missing, app_key = Missing, root_keys_rest = []\<rparr>\<rparr>)) =
     Some ''0123456789abcdef0123456789abcdef''"
proof -
  let ?empty = "bare_device\<lparr>root_keys :=
      Some \<lparr>nwk_key = Missing, app_key = Missing, root_keys_rest = []\<rparr>\<rparr>"
  have int: "externalJs internal_context = Some False" by (simp add: internal_context_def)
  then have ext: "externalJs internal_context \<noteq> Some True" by simp
  have ver: "110 \<le> parseLorawanMacVersion example_env (lorawanVersion internal_context)"
    by (simp add: internal_context_def example_env_def)
  have first: "root_keys (validationSchema_cast example_env example_randoms internal_context bare_device) =
      Some \<lparr>nwk_key = Undefined, app_key = Undefined, root_keys_rest = []\<rparr>"
    by (simp add: root_keys_cast bare_device_def cast_root_keys_absent)
  have "root_keys (validationSchema_cast example_env other_randoms internal_context
     (validationSchema_cast example_env example_randoms internal_context bare_device)) =
     cast_root_keys (root_keys_schema_of example_env other_randoms internal_context)
       (Some \<lparr>nwk_key = Undefined, app_key = Undefined, root_keys_rest = []\<rparr>)"
    by (simp add: root_keys_cast bare_device_def cast_root_keys_absent)
  then have second: "nwk_key_key (validationSchema_cast example_env other_randoms internal_context
     (validationSchema_cast example_env example_randoms internal_context bare_device)) =
     Some ''00000000000000000000000000000001''"
    by (simp add: nwk_key_key_def cast_root_keys_new [OF ext ver] cast_field_keySchema ext
        other_randoms_def)
  have one: "nwk_key_key (validationSchema_cast example_env example_randoms internal_context bare_device) = None"
    and two: "app_key_key (validationSchema_cast example_env example_randoms internal_context bare_device) = None"
    by (simp_all add: nwk_key_key_def app_key_key_def first)
  from one second have differ: "validationSchema_cast example_env other_randoms internal_context
     (validationSchema_cast example_env example_randoms internal_context bare_device) \<noteq>
   validationSchema_cast example_env example_randoms internal_context bare_device"
    by auto
  have "root_keys ?empty = Some \<lparr>nwk_key = Missing, app_key = Missing, root_keys_rest = []\<rparr>"
    by simp
  from cast_generates_keys_present [OF int ver this, of example_randoms]
  have sibling: "nwk_key_key (validationSchema_cast example_env example_randoms internal_context ?empty) =
      Some ''0123456789abcdef0123456789abcdef''"
    by (simp add: example_randoms_def)
  have none: "root_keys bare_device = None" by (simp add: bare_device_def)
  from int ver none first one two second differ sibling show ?thesis by blast
qed


text \<open>
  C3. The \<open>validate\<close> callback validates the object that holds nothing but the
  context, in the position of the values and without options; two states of the form
  with the same \<open>externalJs\<close> flag (and the same device) get the same result, whatever
  the values of the form are.
\<close>

theorem validate_callback_ignores_values:
  "validate_callback cmp r st =
     validationSchema_validate (schema_env cmp) r no_context
       (context_only \<lparr>externalJs = Some (st_externalJs st),
                      lorawanVersion = lorawan_version (device_prop cmp)\<rparr>) \<and>
   (st_externalJs st = st_externalJs st' \<longrightarrow> validate_callback cmp r st = validate_callback cmp r st')"
  by (simp add: validate_callback_def current_context_def)

theorem validate_callback_ignores_values_witness:
  "st_externalJs (initialState example_component) =
     st_externalJs ((initialState example_component)\<lparr>form_values := bare_device\<rparr>) \<and>
   form_values (initialState example_component) \<noteq>
     form_values ((initialState example_component)\<lparr>form_values := bare_device\<rparr>) \<and>
   validate_callback example_component example_randoms (initialState example_component) =
     validate_callback example_component example_randoms
       ((initialState example_component)\<lparr>form_values := bare_device\<rparr>)"
proof -
  have same: "st_externalJs (initialState example_component) =
     st_externalJs ((initialState example_component)\<lparr>form_values := bare_device\<rparr>)"
    by simp
  have "net_id (initialValues example_component) = Some ''abc123''"
    by (simp add: initialValues_def validationSchema_cast_def cast_net_id current_context_def
        example_component_simps example_device_simps)
  moreover have "net_id bare_device = None" by (simp add: bare_device_def)
  ultimately have differ: "form_values (initialState example_component) \<noteq>
     form_values ((initialState example_component)\<lparr>form_values := bare_device\<rparr>)"
    by (auto simp: initialState_def)
  from same validate_callback_ignores_values [of example_component example_randoms
      "initialState example_component"
      "(initialState example_component)\<lparr>form_values := bare_device\<rparr>"]
  have "validate_callback example_component example_randoms (initialState example_component) =
     validate_callback example_component example_randoms
       ((initialState example_component)\<lparr>form_values := bare_device\<rparr>)"
    by blast
  with same differ show ?thesis by blast
qed


text \<open>
  C4, as the code has it. Toggling the checkbox installs, as the values of the form,
  the cast of the memoized initial values under the context of the new checkbox state,
  whatever the values of the form were. So after toggling to true and back to false,
  with anything happening in between, the values are the cast of the initial values
  under \<open>externalJs = false\<close>. If the form started with \<open>externalJs = false\<close>, these
  have the \<open>join_server_address\<close>, \<open>net_id\<close> and \<open>resets_join_nonces\<close> of the initial
  values, and they are the initial values altogether when the device has a \<open>root_keys\<close>
  object.
\<close>

theorem toggle_recasts_initial_values:
  "form_values (handleExternalJsChange cmp r checked st) =
     validationSchema_cast (schema_env cmp) r (current_context cmp checked) (initialValues cmp) \<and>
   form_values (handleExternalJsChange cmp r' False (run cmp evs (handleExternalJsChange cmp r True st))) =
     validationSchema_cast (schema_env cmp) r' (current_context cmp False) (initialValues cmp) \<and>
   (\<not> hasExternalJs cmp (device_prop cmp) \<longrightarrow>
      join_server_address
        (form_values (handleExternalJsChange cmp r' False (run cmp evs (handleExternalJsChange cmp r True st)))) =
        join_server_address (initialValues cmp) \<and>
      net_id
        (form_values (handleExternalJsChange cmp r' False (run cmp evs (handleExternalJsChange cmp r True st)))) =
        net_id (initialValues cmp) \<and>
      resets_join_nonces
        (form_values (handleExternalJsChange cmp r' False (run cmp evs (handleExternalJsChange cmp r True st)))) =
        resets_join_nonces (initialValues cmp) \<and>
      (root_keys (device_prop cmp) \<noteq> None \<longrightarrow>
         form_values (handleExternalJsChange cmp r' False (run cmp evs (handleExternalJsChange cmp r True st))) =
           initialValues cmp))"
proof -
  have whole: "validationSchema_cast (schema_env cmp) r' (current_context cmp False) (initialValues cmp) =
        initialValues cmp"
    if "\<not> hasExternalJs cmp (device_prop cmp)" and "root_keys (device_prop cmp) \<noteq> None"
    using that by (simp add: initialValues_def cast_idem)
  have fields: "join_server_address
        (validationSchema_cast (schema_env cmp) r' (current_context cmp False) (initialValues cmp)) =
        join_server_address (initialValues cmp) \<and>
      net_id (validationSchema_cast (schema_env cmp) r' (current_context cmp False) (initialValues cmp)) =
        net_id (initialValues cmp) \<and>
      resets_join_nonces
        (validationSchema_cast (schema_env cmp) r' (current_context cmp False) (initialValues cmp)) =
        resets_join_nonces (initialValues cmp)"
    if "\<not> hasExternalJs cmp (device_prop cmp)"
    using that cast_twice_fields [of "schema_env cmp" r' "current_context cmp False"
        "initial_randoms cmp" "device_prop cmp"]
    by (simp add: initialValues_def)
  from whole fields show ?thesis by (simp add: form_values_toggle)
qed

theorem toggle_recasts_initial_values_witness:
  "\<not> hasExternalJs example_component (device_prop example_component) \<and>
   root_keys (device_prop example_component) \<noteq> None \<and>
   form_values
     (handleExternalJsChange example_component other_randoms False
        (run example_component [Edit bare_device, ResetsJoinNoncesChange]
           (handleExternalJsChange example_component other_randoms True
              (initialState example_component)))) =
     initialValues example_component \<and>
   net_id (initialValues example_component) = Some ''abc123''"
proof -
  have h1: "\<not> hasExternalJs example_component (device_prop example_component)"
    by (simp add: example_component_simps example_device_simps)
  have h2: "root_keys (device_prop example_component) \<noteq> None"
    by (simp add: example_component_simps example_device_simps)
  have h3: "net_id (initialValues example_component) = Some ''abc123''"
    by (simp add: initialValues_def validationSchema_cast_def cast_net_id current_context_def
        example_component_simps example_device_simps)
  from h1 h2 toggle_recasts_initial_values [of example_component other_randoms True
      "initialState example_component" other_randoms "[Edit bare_device, ResetsJoinNoncesChange]"]
  have "form_values
     (handleExternalJsChange example_component other_randoms False
        (run example_component [Edit bare_device, ResetsJoinNoncesChange]
           (handleExternalJsChange example_component other_randoms True
              (initialState example_component)))) =
     initialValues example_component"
    by blast
  with h1 h2 h3 show ?thesis by blast
qed


text \<open>
  For the device without \<open>root_keys\<close> the initial values hold no keys, and the values
  after a round trip to true and back to false hold generated ones: both when the form
  starts with \<open>externalJs = false\<close>, and when it starts with \<open>externalJs = true\<close> and
  the round trip follows a first toggle to false.
\<close>

theorem toggle_round_trip_counterexample:
  "root_keys (device_prop bare_component) = None \<and>
   st_externalJs (initialState bare_component) = False \<and>
   nwk_key_key (initialValues bare_component) = None \<and>
   nwk_key_key
     (form_values
        (handleExternalJsChange bare_component other_randoms False
           (handleExternalJsChange bare_component other_randoms True
              (initialState bare_component)))) =
     Some ''00000000000000000000000000000001'' \<and>
   form_values
     (handleExternalJsChange bare_component other_randoms False
        (handleExternalJsChange bare_component other_randoms True
           (initialState bare_component))) \<noteq>
   initialValues bare_component \<and>
   st_externalJs (initialState external_bare_component) = True \<and>
   st_externalJs
     (handleExternalJsChange external_bare_component example_randoms False
        (initialState external_bare_component)) = False \<and>
   form_values
     (handleExternalJsChange external_bare_component other_randoms False
        (handleExternalJsChange external_bare_component other_randoms True
           (handleExternalJsChange external_bare_component example_randoms False
              (initialState external_bare_component)))) \<noteq>
   initialValues external_bare_component"
proof -
  let ?A = bare_component and ?B = external_bare_component
  have A: "schema_env ?A = example_env" "device_prop ?A = bare_device"
    by (simp_all add: bare_component_simps)
  have B: "schema_env ?B = example_env" "device_prop ?B = bare_device"
    by (simp_all add: external_bare_component_def bare_component_simps)
  have flagA: "st_externalJs (initialState ?A) = False"
    by (simp add: initialState_def bare_component_simps example_device_simps)
  have flagB: "st_externalJs (initialState ?B) = True"
    by (simp add: initialState_def external_bare_component_def bare_component_simps
        example_device_simps)
  then have flagB': "st_externalJs
      (handleExternalJsChange ?B example_randoms False (initialState ?B)) = False"
    by (simp add: handleExternalJsChange_def)
  from round_trip_without_root_keys [OF A, of "initialState ?A"]
  have a: "nwk_key_key (initialValues ?A) = None"
    "nwk_key_key (form_values (handleExternalJsChange ?A other_randoms False
        (handleExternalJsChange ?A other_randoms True (initialState ?A)))) =
      Some ''00000000000000000000000000000001''"
    by simp_all
  then have a': "form_values (handleExternalJsChange ?A other_randoms False
        (handleExternalJsChange ?A other_randoms True (initialState ?A))) \<noteq> initialValues ?A"
    by auto
  from round_trip_without_root_keys [OF B,
      of "handleExternalJsChange ?B example_randoms False (initialState ?B)"]
  have "nwk_key_key (initialValues ?B) \<noteq>
    nwk_key_key (form_values (handleExternalJsChange ?B other_randoms False
        (handleExternalJsChange ?B other_randoms True
           (handleExternalJsChange ?B example_randoms False (initialState ?B)))))"
    by simp
  then have b': "form_values (handleExternalJsChange ?B other_randoms False
        (handleExternalJsChange ?B other_randoms True
           (handleExternalJsChange ?B example_randoms False (initialState ?B)))) \<noteq>
      initialValues ?B"
    by auto
  from A(2) flagA flagB flagB' a a' b' show ?thesis
    by (simp add: example_device_simps)
qed


text \<open>
  C5. A submit casts the submitted values under the current context, takes the
  \<open>diff\<close> of the initial values and the cast values without the keys \<open>_external_js\<close>
  and \<open>_lorawan_version\<close>, and calls \<open>onSubmit\<close> with it exactly once, whatever the
  difference is, an empty one included.
\<close>

theorem submit_always_calls_onSubmit:
  "submitted (onFormSubmit cmp r values st) =
     submitted st @
       [diff cmp (initialValues cmp)
          (validationSchema_cast (schema_env cmp) r
             \<lparr>externalJs = Some (st_externalJs st), lorawanVersion = lorawan_version (device_prop cmp)\<rparr>
             values)
          [''_external_js'', ''_lorawan_version'']]"
  by (simp add: onFormSubmit_def resetForm_def current_context_def Let_def split: option.splits)

theorem submit_always_calls_onSubmit_witness:
  "submitted (initialState example_component) = [] \<and>
   submitted (onFormSubmit example_component other_randoms (initialValues example_component)
     (initialState example_component)) = [[]]"
proof -
  have ext: "st_externalJs (initialState example_component) = False"
    by (simp add: initialState_def example_component_simps example_device_simps)
  have none: "submitted (initialState example_component) = []"
    by (simp add: initialState_def)
  have ctx: "\<lparr>externalJs = Some False, lorawanVersion = lorawan_version (device_prop example_component)\<rparr> =
      current_context example_component False"
    by (simp add: current_context_def)
  from submit_always_calls_onSubmit [of example_component other_randoms
      "initialValues example_component" "initialState example_component"]
  have "submitted (onFormSubmit example_component other_randoms (initialValues example_component)
     (initialState example_component)) = [[]]"
    unfolding ext none ctx
    by (simp add: example_component_simps example_initialValues_fixed example_diff_same)
  with none show ?thesis by simp
qed







text \<open>
  C7. Under \<open>externalJs = false\<close> the cast value holds \<open>net_id\<close>, the device's or else
  the empty string, and \<open>validate\<close> rejects with the length error of \<open>net_id\<close> exactly
  when that string is neither empty nor six hexadecimal characters: it does for
  \<open>abcd\<close>, and it never rejects with an error of \<open>net_id\<close> for \<open>abc123\<close>. Under
  \<open>externalJs = true\<close> the field is removed.
\<close>

theorem net_id_rule:
  "(externalJs c = Some False \<longrightarrow>
      net_id (validationSchema_cast e r c d) = Some (case net_id d of None \<Rightarrow> [] | Some a \<Rightarrow> a) \<and>
      (validationSchema_validate e r c d = Inl (''net_id'', validate6) \<longleftrightarrow>
       \<not> ((case net_id d of None \<Rightarrow> [] | Some a \<Rightarrow> a) = [] \<or>
          (length (case net_id d of None \<Rightarrow> [] | Some a \<Rightarrow> a) = 6 \<and>
           list_all is_hex_char (case net_id d of None \<Rightarrow> [] | Some a \<Rightarrow> a)))) \<and>
      (\<forall>m. validationSchema_validate e r c d = Inl (''net_id'', m) \<longrightarrow> m = validate6) \<and>
      (net_id d = Some ''abcd'' \<longrightarrow>
         validationSchema_validate e r c d = Inl (''net_id'', validate6)) \<and>
      (net_id d = Some ''abc123'' \<longrightarrow>
         (\<forall>m. validationSchema_validate e r c d \<noteq> Inl (''net_id'', m)))) \<and>
   (externalJs c = Some True \<longrightarrow> net_id (validationSchema_cast e r c d) = None)"
proof -
  let ?v = "validationSchema_cast e r c d"
  let ?s = "case net_id d of None \<Rightarrow> [] | Some a \<Rightarrow> a"
  let ?N = "validate_value ''net_id'' (net_id_schema c) (net_id ?v)"
  let ?A = "validate_value ''join_server_address'' (join_server_address_schema e c)
      (join_server_address ?v)"
  have int: "net_id ?v = Some ?s" if "externalJs c = Some False"
    using that by (simp add: net_id_field cast_net_id)
  have ext: "net_id ?v = None" if "externalJs c = Some True"
    using that by (simp add: net_id_field cast_net_id)
  have N: "?N = [] \<longleftrightarrow> ?s = [] \<or> (length ?s = 6 \<and> list_all is_hex_char ?s)"
    if "externalJs c = Some False"
    using that by (simp add: net_id_passes int)
  have only: "?N \<noteq> [] \<and> m = validate6"
    if v: "validationSchema_validate e r c d = Inl (''net_id'', m)" for m
  proof (cases "?N = []")
    case True
    show ?thesis
    proof (cases "?A = []")
      case True
      from validate_key_error [OF \<open>?N = []\<close> True v] show ?thesis by simp
    next
      case False
      from validate_join_server_address_second [OF \<open>?N = []\<close> False] v show ?thesis by simp
    qed
  next
    case False
    from validate_net_id_first [OF False] v show ?thesis using False by simp
  qed
  have iff: "validationSchema_validate e r c d = Inl (''net_id'', validate6) \<longleftrightarrow>
      \<not> (?s = [] \<or> (length ?s = 6 \<and> list_all is_hex_char ?s))"
    if f: "externalJs c = Some False"
  proof
    assume "validationSchema_validate e r c d = Inl (''net_id'', validate6)"
    from only [OF this] N [OF f]
    show "\<not> (?s = [] \<or> (length ?s = 6 \<and> list_all is_hex_char ?s))" by simp
  next
    assume "\<not> (?s = [] \<or> (length ?s = 6 \<and> list_all is_hex_char ?s))"
    with N [OF f] have "?N \<noteq> []" by simp
    then show "validationSchema_validate e r c d = Inl (''net_id'', validate6)"
      by (rule validate_net_id_first)
  qed
  have short: "validationSchema_validate e r c d = Inl (''net_id'', validate6)"
    if "externalJs c = Some False" "net_id d = Some ''abcd''"
    using that by (simp add: iff)
  have hex: "list_all is_hex_char ''abc123''"
    by (simp add: is_hex_char_def)
  have good: "validationSchema_validate e r c d \<noteq> Inl (''net_id'', m)"
    if f: "externalJs c = Some False" and n: "net_id d = Some ''abc123''" for m
  proof
    assume "validationSchema_validate e r c d = Inl (''net_id'', m)"
    from only [OF this] N [OF f] n hex show False by simp
  qed
  from int ext iff only short good show ?thesis by blast
qed

theorem net_id_rule_witness:
  "externalJs internal_context = Some False \<and>
   net_id (example_device\<lparr>net_id := Some ''abcd''\<rparr>) = Some ''abcd'' \<and>
   validationSchema_validate example_env example_randoms internal_context
     (example_device\<lparr>net_id := Some ''abcd''\<rparr>) = Inl (''net_id'', validate6) \<and>
   net_id example_device = Some ''abc123'' \<and>
   net_id (validationSchema_cast example_env example_randoms internal_context example_device) =
     Some ''abc123'' \<and>
   validationSchema_validate example_env example_randoms internal_context example_device \<noteq>
     Inl (''net_id'', validate6) \<and>
   net_id (validationSchema_cast example_env example_randoms internal_context
     (example_device\<lparr>net_id := None\<rparr>)) = Some [] \<and>
   externalJs external_context = Some True \<and>
   net_id (validationSchema_cast example_env example_randoms external_context example_device) = None"
proof -
  let ?short = "example_device\<lparr>net_id := Some ''abcd''\<rparr>"
  let ?none = "example_device\<lparr>net_id := None\<rparr>"
  have i: "externalJs internal_context = Some False" by (simp add: internal_context_def)
  have x: "externalJs external_context = Some True" by (simp add: external_context_def)
  have s: "net_id ?short = Some ''abcd''" by simp
  have g: "net_id example_device = Some ''abc123''" by (simp add: example_device_def)
  from i s net_id_rule [of internal_context example_env example_randoms ?short]
  have a: "validationSchema_validate example_env example_randoms internal_context ?short =
      Inl (''net_id'', validate6)"
    by blast
  from i g net_id_rule [of internal_context example_env example_randoms example_device]
  have b: "net_id (validationSchema_cast example_env example_randoms internal_context example_device) =
     Some ''abc123'' \<and>
   validationSchema_validate example_env example_randoms internal_context example_device \<noteq>
     Inl (''net_id'', validate6)"
    by auto
  from i net_id_rule [of internal_context example_env example_randoms ?none]
  have c: "net_id (validationSchema_cast example_env example_randoms internal_context ?none) = Some []"
    by simp
  from x net_id_rule [of external_context example_env example_randoms example_device]
  have d: "net_id (validationSchema_cast example_env example_randoms external_context example_device) = None"
    by simp
  from i x s g a b c d show ?thesis by blast
qed


text \<open>
  C8, as the code has it. When \<open>onSubmit\<close> rejects, the submit handler keeps the
  error in the state, clears the submitting flag and leaves the values and the baseline
  of the form as they were: the values as submitted, not their cast. When \<open>onSubmit\<close>
  resolves, the form is reset to the cast values, which become its baseline.
\<close>

theorem submit_settles:
  "(onSubmit cmp (diff cmp (initialValues cmp)
        (validationSchema_cast (schema_env cmp) r (current_context cmp (st_externalJs st)) values)
        [''_external_js'', ''_lorawan_version'']) = Some err \<longrightarrow>
      st_error (onFormSubmit cmp r values st) = Some err \<and>
      \<not> form_submitting (onFormSubmit cmp r values st) \<and>
      form_values (onFormSubmit cmp r values st) = form_values st \<and>
      form_baseline (onFormSubmit cmp r values st) = form_baseline st) \<and>
   (onSubmit cmp (diff cmp (initialValues cmp)
        (validationSchema_cast (schema_env cmp) r (current_context cmp (st_externalJs st)) values)
        [''_external_js'', ''_lorawan_version'']) = None \<longrightarrow>
      form_baseline (onFormSubmit cmp r values st) =
        validationSchema_cast (schema_env cmp) r (current_context cmp (st_externalJs st)) values \<and>
      form_values (onFormSubmit cmp r values st) =
        validationSchema_cast (schema_env cmp) r (current_context cmp (st_externalJs st)) values \<and>
      st_error (onFormSubmit cmp r values st) = None \<and>
      \<not> form_submitting (onFormSubmit cmp r values st))"
  by (simp add: onFormSubmit_def resetForm_def Let_def)

theorem submit_settles_witness:
  "st_error
     (onFormSubmit example_component other_randoms
        ((initialValues example_component)\<lparr>net_id := Some ''abcdef''\<rparr>)
        ((initialState example_component)
           \<lparr>form_values := (initialValues example_component)\<lparr>net_id := Some ''abcdef''\<rparr>,
            form_submitting := True\<rparr>)) = Some ''net_id is fixed'' \<and>
   \<not> form_submitting
     (onFormSubmit example_component other_randoms
        ((initialValues example_component)\<lparr>net_id := Some ''abcdef''\<rparr>)
        ((initialState example_component)
           \<lparr>form_values := (initialValues example_component)\<lparr>net_id := Some ''abcdef''\<rparr>,
            form_submitting := True\<rparr>)) \<and>
   form_values
     (onFormSubmit example_component other_randoms
        ((initialValues example_component)\<lparr>net_id := Some ''abcdef''\<rparr>)
        ((initialState example_component)
           \<lparr>form_values := (initialValues example_component)\<lparr>net_id := Some ''abcdef''\<rparr>,
            form_submitting := True\<rparr>)) =
     (initialValues example_component)\<lparr>net_id := Some ''abcdef''\<rparr> \<and>
   form_baseline
     (onFormSubmit example_component other_randoms
        ((initialValues example_component)\<lparr>net_id := Some ''abcdef''\<rparr>)
        ((initialState example_component)
           \<lparr>form_values := (initialValues example_component)\<lparr>net_id := Some ''abcdef''\<rparr>,
            form_submitting := True\<rparr>)) =
     initialValues example_component \<and>
   form_baseline
     (onFormSubmit example_component other_randoms
        ((initialValues example_component)\<lparr>resets_join_nonces := Some False\<rparr>)
        ((initialState example_component)
           \<lparr>form_values := (initialValues example_component)\<lparr>resets_join_nonces := Some False\<rparr>,
            form_submitting := True\<rparr>)) =
     (initialValues example_component)\<lparr>resets_join_nonces := Some False\<rparr>"
proof -
  let ?iv = "initialValues example_component"
  let ?v = "?iv\<lparr>net_id := Some ''abcdef''\<rparr>"
  let ?w = "?iv\<lparr>resets_join_nonces := Some False\<rparr>"
  let ?st = "(initialState example_component)\<lparr>form_values := ?v, form_submitting := True\<rparr>"
  let ?su = "(initialState example_component)\<lparr>form_values := ?w, form_submitting := True\<rparr>"
  let ?c = "current_context example_component False"
  have ext: "st_externalJs ?st = False" "st_externalJs ?su = False"
    by (simp_all add: initialState_def example_component_simps example_device_simps)
  have ver: "110 \<le> parseLorawanMacVersion example_env (lorawanVersion ?c)"
    by (simp add: current_context_def example_component_simps example_device_simps example_env_def)
  have base: "form_baseline ?st = ?iv" by (simp add: initialState_def)
  have iv_net: "net_id ?iv = Some ''abc123''"
    by (simp add: initialValues_def validationSchema_cast_def cast_net_id current_context_def
        example_component_simps example_device_simps)
  have cast_net: "net_id (validationSchema_cast example_env other_randoms ?c ?v) = Some ''abcdef''"
    by (simp add: validationSchema_cast_def cast_net_id current_context_def)
  have rejected: "onSubmit example_component
      (diff example_component ?iv (validationSchema_cast (schema_env example_component) other_randoms
         (current_context example_component (st_externalJs ?st)) ?v)
         [''_external_js'', ''_lorawan_version'']) = Some ''net_id is fixed''"
    unfolding ext by (simp add: example_component_simps example_diff_net_id iv_net cast_net)
  have keeps: "validationSchema_cast example_env other_randoms ?c ?w = ?w"
  proof -
    have "validationSchema_cast example_env other_randoms ?c ?w =
        (validationSchema_cast example_env other_randoms ?c ?iv)\<lparr>resets_join_nonces := Some False\<rparr>"
      using ver by (simp add: validationSchema_cast_def cast_resets_join_nonces)
    then show ?thesis by (simp add: example_initialValues_fixed)
  qed
  have "''net_id'' \<notin> set (example_diff ?iv ?w [''_external_js'', ''_lorawan_version''])"
    by (simp add: example_diff_net_id)
  then have resolved: "onSubmit example_component
      (diff example_component ?iv (validationSchema_cast (schema_env example_component) other_randoms
         (current_context example_component (st_externalJs ?su)) ?w)
         [''_external_js'', ''_lorawan_version'']) = None"
    unfolding ext by (simp add: example_component_simps keeps)
  from rejected submit_settles [of example_component other_randoms ?st ?v "''net_id is fixed''"]
  have a: "st_error (onFormSubmit example_component other_randoms ?v ?st) = Some ''net_id is fixed'' \<and>
      \<not> form_submitting (onFormSubmit example_component other_randoms ?v ?st) \<and>
      form_values (onFormSubmit example_component other_randoms ?v ?st) = form_values ?st \<and>
      form_baseline (onFormSubmit example_component other_randoms ?v ?st) = form_baseline ?st"
    by blast
  from resolved submit_settles [of example_component other_randoms ?su ?w "''net_id is fixed''"]
  have "form_baseline (onFormSubmit example_component other_randoms ?w ?su) =
      validationSchema_cast (schema_env example_component) other_randoms
        (current_context example_component (st_externalJs ?su)) ?w"
    by blast
  then have b: "form_baseline (onFormSubmit example_component other_randoms ?w ?su) = ?w"
    unfolding ext by (simp add: example_component_simps keeps)
  from a b base show ?thesis by simp
qed


text \<open>
  The cast values are not what the form keeps: for the device without \<open>root_keys\<close>,
  submitted right after mounting and rejected, the values kept hold no key while their
  cast holds a generated one.
\<close>

theorem submit_keeps_raw_values_counterexample:
  "st_error
     (onFormSubmit rejecting_component other_randoms
        (form_values (initialState rejecting_component)) (initialState rejecting_component)) =
     Some ''unavailable'' \<and>
   nwk_key_key
     (form_values
        (onFormSubmit rejecting_component other_randoms
           (form_values (initialState rejecting_component)) (initialState rejecting_component))) =
     None \<and>
   nwk_key_key
     (validationSchema_cast (schema_env rejecting_component) other_randoms
        (current_context rejecting_component (st_externalJs (initialState rejecting_component)))
        (form_values (initialState rejecting_component))) =
     Some ''00000000000000000000000000000001'' \<and>
   form_values
     (onFormSubmit rejecting_component other_randoms
        (form_values (initialState rejecting_component)) (initialState rejecting_component)) \<noteq>
   validationSchema_cast (schema_env rejecting_component) other_randoms
     (current_context rejecting_component (st_externalJs (initialState rejecting_component)))
     (form_values (initialState rejecting_component))"
proof -
  let ?cmp = rejecting_component
  let ?st = "initialState ?cmp"
  let ?c = "current_context ?cmp False"
  have env: "schema_env ?cmp = example_env" and dev: "device_prop ?cmp = bare_device"
    and sub: "onSubmit ?cmp u = Some ''unavailable''" for u
    by (simp_all add: rejecting_component_def bare_component_simps)
  have flag: "st_externalJs ?st = False"
    by (simp add: initialState_def rejecting_component_def bare_component_simps
        example_device_simps)
  have vals: "form_values ?st = initialValues ?cmp" by (simp add: initialState_def)
  have ext: "externalJs ?c \<noteq> Some True" by (simp add: current_context_def)
  have ver: "110 \<le> parseLorawanMacVersion example_env (lorawanVersion ?c)"
    by (simp add: current_context_def dev example_device_simps example_env_def)
  have iv: "root_keys (initialValues ?cmp) =
      Some \<lparr>nwk_key = Undefined, app_key = Undefined, root_keys_rest = []\<rparr>"
    by (simp add: initialValues_def root_keys_cast dev example_device_simps cast_root_keys_absent)
  have after: "form_values (onFormSubmit ?cmp other_randoms (initialValues ?cmp) ?st) = initialValues ?cmp"
    and err: "st_error (onFormSubmit ?cmp other_randoms (initialValues ?cmp) ?st) = Some ''unavailable''"
    by (simp_all add: onFormSubmit_def Let_def sub vals)
  from iv have raw: "nwk_key_key (initialValues ?cmp) = None"
    by (simp add: nwk_key_key_def)
  have "root_keys (validationSchema_cast example_env other_randoms ?c (initialValues ?cmp)) =
      cast_root_keys (root_keys_schema_of example_env other_randoms ?c)
        (Some \<lparr>nwk_key = Undefined, app_key = Undefined, root_keys_rest = []\<rparr>)"
    by (simp add: root_keys_cast iv)
  then have casted: "nwk_key_key (validationSchema_cast example_env other_randoms ?c (initialValues ?cmp)) =
      Some ''00000000000000000000000000000001''"
    by (simp add: nwk_key_key_def cast_root_keys_new [OF ext ver] cast_field_keySchema ext
        other_randoms_def)
  from raw casted have "initialValues ?cmp \<noteq>
      validationSchema_cast example_env other_randoms ?c (initialValues ?cmp)"
    by auto
  with err raw casted show ?thesis
    unfolding vals flag env after by simp
qed


text \<open>
  C9. The handler for \<open>resets_join_nonces\<close> sets the flag to false when \<open>externalJs\<close>
  is true and leaves it as it is otherwise; no sequence of handler calls and edits
  takes the flag from false to true.
\<close>

theorem resetsJoinNonces_never_set:
  "(st_externalJs st \<longrightarrow> \<not> st_resetsJoinNonces (handleResetsJoinNoncesChange st)) \<and>
   (\<not> st_externalJs st \<longrightarrow>
      st_resetsJoinNonces (handleResetsJoinNoncesChange st) = st_resetsJoinNonces st) \<and>
   (\<not> st_resetsJoinNonces st \<longrightarrow> \<not> st_resetsJoinNonces (run cmp evs st))"
  by (simp add: handleResetsJoinNoncesChange_def run_resetsJoinNonces)

theorem resetsJoinNonces_never_set_witness:
  "st_externalJs ((initialState example_component)\<lparr>st_externalJs := True\<rparr>) \<and>
   st_resetsJoinNonces ((initialState example_component)\<lparr>st_externalJs := True\<rparr>) \<and>
   \<not> st_resetsJoinNonces
       (handleResetsJoinNoncesChange ((initialState example_component)\<lparr>st_externalJs := True\<rparr>)) \<and>
   \<not> st_externalJs (initialState example_component) \<and>
   st_resetsJoinNonces (handleResetsJoinNoncesChange (initialState example_component)) \<and>
   \<not> st_resetsJoinNonces
       (run example_component
          [ExternalJsChange False other_randoms, ResetsJoinNoncesChange, Edit bare_device,
           Submit other_randoms]
          (handleResetsJoinNoncesChange ((initialState example_component)\<lparr>st_externalJs := True\<rparr>)))"
proof -
  let ?s0 = "initialState example_component"
  let ?sE = "?s0\<lparr>st_externalJs := True\<rparr>"
  have e: "st_externalJs ?sE" by simp
  have r: "st_resetsJoinNonces ?sE" "st_resetsJoinNonces ?s0"
    by (simp_all add: initialState_def example_component_simps example_device_simps)
  have n: "\<not> st_externalJs ?s0"
    by (simp add: initialState_def example_component_simps example_device_simps)
  from e resetsJoinNonces_never_set [of ?sE example_component "[]"]
  have a: "\<not> st_resetsJoinNonces (handleResetsJoinNoncesChange ?sE)" by blast
  from n r resetsJoinNonces_never_set [of ?s0 example_component "[]"]
  have b: "st_resetsJoinNonces (handleResetsJoinNoncesChange ?s0)" by blast
  from a resetsJoinNonces_never_set [of "handleResetsJoinNoncesChange ?sE" example_component
      "[ExternalJsChange False other_randoms, ResetsJoinNoncesChange, Edit bare_device,
        Submit other_randoms]"]
  have c: "\<not> st_resetsJoinNonces
       (run example_component
          [ExternalJsChange False other_randoms, ResetsJoinNoncesChange, Edit bare_device,
           Submit other_randoms]
          (handleResetsJoinNoncesChange ?sE))"
    by blast
  from e r n a b c show ?thesis by blast
qed


text \<open>
  C10. \<open>isNwkKeyHidden\<close> and \<open>isAppKeyHidden\<close> should return a boolean for every
  device. On a key field that is \<open>null\<close> they throw: \<open>typeof null\<close> is \<open>'object'\<close>, so
  the guard lets \<open>null\<close> through to \<open>Object.keys\<close>. On the other shapes of the key field
  they answer as stated: true for the empty object, false for an object that holds
  \<open>key\<close>, for a missing key field and for missing \<open>root_keys\<close>.
\<close>

theorem hidden_key_predicates_null:
  "isNwkKeyHidden (JObject [(''root_keys'', JObject [(''nwk_key'', JNull)])]) = Inl TypeError \<and>
   isAppKeyHidden (JObject [(''root_keys'', JObject [(''app_key'', JNull)])]) = Inl TypeError \<and>
   isNwkKeyHidden (JObject [(''root_keys'', JObject [(''nwk_key'', JObject [])])]) = Inr True \<and>
   isNwkKeyHidden
     (JObject [(''root_keys'', JObject [(''nwk_key'', JObject [(''key'', JString ''00'')])])]) =
     Inr False \<and>
   isNwkKeyHidden (JObject [(''root_keys'', JObject [])]) = Inr False \<and>
   isNwkKeyHidden (JObject []) = Inr False"
  by (simp add: isNwkKeyHidden_def isAppKeyHidden_def isKeyHidden_def)

end
